theory Spec2Isabelle
  imports Main "HOL-Library.AList"
begin

section \<open>JavaScript strings and values\<close>

text \<open>
  Strings are lists of code units below 256 (\<^typ>\<open>string\<close>). A value that may be
  \<^verbatim>\<open>undefined\<close> or \<^verbatim>\<open>null\<close> is an \<^typ>\<open>'a option\<close>.
\<close>

definition dquote :: char where
  "dquote = CHR 0x22"

definition newline :: char where
  "newline = CHR 0x0A"

text \<open>
  \<^verbatim>\<open>String.prototype.toLowerCase\<close> on code units below 256: A-Z and the Latin-1
  capitals (except the multiplication sign) move up by 32, everything else stays.
\<close>

definition toLowerCase_char :: "char \<Rightarrow> char" where
  "toLowerCase_char c =
     (let n = (of_char c :: nat) in
      if (65 \<le> n \<and> n \<le> 90) \<or> (192 \<le> n \<and> n \<le> 222 \<and> n \<noteq> 215)
      then char_of (n + 32) else c)"

definition toLowerCase :: "string \<Rightarrow> string" where
  "toLowerCase s = map toLowerCase_char s"

text \<open>
  \<^verbatim>\<open>s.split(sep)\<close> for a non-empty literal separator: cut at every occurrence, scanning
  from the left; the pieces between occurrences are returned, empty ones included.
\<close>

fun split_acc :: "string \<Rightarrow> string \<Rightarrow> string \<Rightarrow> string list" where
  "split_acc sep acc [] = [rev acc]"
| "split_acc sep acc (c # cs) =
     (if sep \<noteq> [] \<and> take (length sep) (c # cs) = sep
      then rev acc # split_acc sep [] (drop (length sep - 1) cs)
      else split_acc sep (c # acc) cs)"

definition js_split :: "string \<Rightarrow> string \<Rightarrow> string list" where
  "js_split s sep = split_acc sep [] s"

text \<open>\<^verbatim>\<open>arr.slice(-2)\<close>: the last two elements, or all of them when there are fewer.\<close>

definition slice_last2 :: "'a list \<Rightarrow> 'a list" where
  "slice_last2 xs = drop (length xs - 2) xs"

text \<open>\<^verbatim>\<open>arr[i]\<close>: \<^verbatim>\<open>undefined\<close> out of range.\<close>

definition index :: "'a list \<Rightarrow> nat \<Rightarrow> 'a option" where
  "index xs i = (if i < length xs then Some (xs ! i) else None)"

text \<open>A possibly undefined string inside a template literal.\<close>

definition interpolate :: "string option \<Rightarrow> string" where
  "interpolate v = (case v of None \<Rightarrow> ''undefined'' | Some s \<Rightarrow> s)"

section \<open>Repository-name normalization\<close>

text \<open>The character class \<^verbatim>\<open>[a-z0-9-_.]\<close>.\<close>

definition name_char :: "char \<Rightarrow> bool" where
  "name_char c \<longleftrightarrow> c \<in> set ''abcdefghijklmnopqrstuvwxyz0123456789-_.''"

text \<open>\<^verbatim>\<open>.replace(/[^a-z0-9-_.]/g, '-')\<close>\<close>

definition replace_invalid :: "string \<Rightarrow> string" where
  "replace_invalid s = map (\<lambda>c. if name_char c then c else CHR ''-'') s"

text \<open>\<^verbatim>\<open>.replace(/-+/g, '-')\<close>: every maximal run of dashes becomes one dash.\<close>

fun collapse_dashes :: "string \<Rightarrow> string" where
  "collapse_dashes (c # d # cs) =
     (if c = CHR ''-'' \<and> d = CHR ''-'' then collapse_dashes (d # cs)
      else c # collapse_dashes (d # cs))"
| "collapse_dashes cs = cs"

text \<open>
  \<^verbatim>\<open>.replace(/^-|-$/g, '')\<close>: the first alternative removes a dash at position 0, the
  second a dash at the end of what is left.
\<close>

definition drop_leading_dash :: "string \<Rightarrow> string" where
  "drop_leading_dash s = (case s of [] \<Rightarrow> [] | c # cs \<Rightarrow> if c = CHR ''-'' then cs else s)"

definition drop_trailing_dash :: "string \<Rightarrow> string" where
  "drop_trailing_dash s = (if s \<noteq> [] \<and> last s = CHR ''-'' then butlast s else s)"

definition sanitizeRepoName :: "string \<Rightarrow> string" where
  "sanitizeRepoName repoName =
     drop_trailing_dash (drop_leading_dash
       (collapse_dashes (replace_invalid (toLowerCase repoName))))"

text \<open>Shapes of strings used to describe the result of \<^const>\<open>sanitizeRepoName\<close>.\<close>

fun no_double_dash :: "string \<Rightarrow> bool" where
  "no_double_dash (c # d # cs) \<longleftrightarrow>
     \<not> (c = CHR ''-'' \<and> d = CHR ''-'') \<and> no_double_dash (d # cs)"
| "no_double_dash cs \<longleftrightarrow> True"

definition trimmed :: "string \<Rightarrow> bool" where
  "trimmed s \<longleftrightarrow> (s = [] \<or> (hd s \<noteq> CHR ''-'' \<and> last s \<noteq> CHR ''-''))"

section \<open>The migration record (shared/schema.ts)\<close>

datatype MigrationStatus = pending | in_progress | completed | failed | cancelled

record PipelineConfig =
  convertClassicPipelines :: bool
  migrateVariableGroups :: bool
  migrateServiceConnections :: bool
  migrateEnvironments :: bool

text \<open>
  A row of the \<^verbatim>\<open>migrations\<close> table. Timestamps are points of a discrete clock.
  The status column is text in the schema; the model keeps the five values of
  \<^verbatim>\<open>migrationStatusEnum\<close>.
\<close>

record Migration =
  migration_id :: nat
  batchId :: "string option"
  batchName :: "string option"
  sourceRepo :: string
  targetRepo :: string
  status :: MigrationStatus
  progress :: int
  error :: "string option"
  azureToken :: string
  githubToken :: string
  pipelineConfig :: "PipelineConfig option"
  migrationMode :: string
  folderPath :: "string option"
  startedAt :: "nat option"
  completedAt :: "nat option"
  validationStatus :: "string option"
  retryCount :: "int option"
  priority :: "int option"

text \<open>\<^verbatim>\<open>InsertMigration\<close>: the fields \<^verbatim>\<open>createMigration\<close> reads.\<close>

record InsertMigration =
  ins_sourceRepo :: string
  ins_targetRepo :: string
  ins_status :: MigrationStatus
  ins_azureToken :: string
  ins_githubToken :: string
  ins_pipelineConfig :: "PipelineConfig option"
  ins_migrationMode :: "string option"
  ins_folderPath :: "string option"

text \<open>A thrown JavaScript error: its message and, for an HTTP client error, the response.\<close>

datatype http_response = HttpResponse (http_status: nat) (data_message: "string option")

datatype js_error = JsError (message: string) (response: "http_response option")

section \<open>MemStorage (server/storage.ts)\<close>

text \<open>
  The JavaScript \<^verbatim>\<open>Map\<close> keeps insertion order and \<^verbatim>\<open>set\<close> on a present key keeps
  the key's position: an association list with \<^const>\<open>AList.update\<close>.
\<close>

record MemStorage =
  migrations :: "(nat \<times> Migration) list"
  currentId :: nat

definition MemStorage_new :: MemStorage where
  "MemStorage_new = \<lparr>migrations = [], currentId = 1\<rparr>"

text \<open>\<^verbatim>\<open>x || null\<close> and \<^verbatim>\<open>x || 'individual'\<close> on optional strings: the empty string is falsy.\<close>

definition truthy :: "string option \<Rightarrow> bool" where
  "truthy v = (case v of None \<Rightarrow> False | Some s \<Rightarrow> s \<noteq> [])"

text \<open>
  The counter is a JavaScript number, that is a double, and \<^verbatim>\<open>this.currentId++\<close> stores
  the rounded sum \<open>n + 1\<close>. On a non-negative integer \<open>n\<close> the sum is exact below
  \<open>2\<^sup>5\<^sup>3\<close>. From \<open>2\<^sup>5\<^sup>3\<close> to \<open>2\<^sup>5\<^sup>4\<close> the doubles are the even integers and the odd
  sum is a tie between \<open>n\<close> and \<open>n + 2\<close>, rounded to the one with the even significand
  (\<open>n\<close> when 4 divides it). From \<open>2\<^sup>5\<^sup>4\<close> on the sum rounds back to \<open>n\<close>.
\<close>

definition js_increment :: "nat \<Rightarrow> nat" where
  "js_increment n =
     (if int n < 2 ^ 53 then n + 1
      else if int n < 2 ^ 54 \<and> n mod 4 = 2 then n + 2
      else n)"

definition createMigration :: "MemStorage \<Rightarrow> InsertMigration \<Rightarrow> Migration \<times> MemStorage" where
  "createMigration st insertMigration =
     (let i = currentId st;
          migration = \<lparr>
            migration_id = i,
            batchId = None,
            batchName = None,
            sourceRepo = ins_sourceRepo insertMigration,
            targetRepo = ins_targetRepo insertMigration,
            status = ins_status insertMigration,
            progress = 0,
            error = None,
            azureToken = ins_azureToken insertMigration,
            githubToken = ins_githubToken insertMigration,
            pipelineConfig = ins_pipelineConfig insertMigration,
            migrationMode =
              (if truthy (ins_migrationMode insertMigration)
               then the (ins_migrationMode insertMigration) else ''individual''),
            folderPath =
              (if truthy (ins_folderPath insertMigration)
               then ins_folderPath insertMigration else None),
            startedAt = None,
            completedAt = None,
            validationStatus = None,
            retryCount = Some 0,
            priority = Some 1\<rparr>
      in (migration,
          \<lparr>migrations = AList.update i migration (migrations st),
           currentId = js_increment i\<rparr>))"

definition getMigration :: "MemStorage \<Rightarrow> nat \<Rightarrow> Migration option" where
  "getMigration st i = map_of (migrations st) i"

definition not_found :: js_error where
  "not_found = JsError ''Migration not found'' None"

text \<open>\<open>now\<close> is the value of \<^verbatim>\<open>new Date()\<close> at the call.\<close>

definition updateMigrationStatus ::
  "MemStorage \<Rightarrow> nat \<Rightarrow> MigrationStatus \<Rightarrow> nat \<Rightarrow> js_error + Migration \<times> MemStorage" where
  "updateMigrationStatus st i new_status now =
     (case getMigration st i of
        None \<Rightarrow> Inl not_found
      | Some migration \<Rightarrow>
          (let u1 = migration\<lparr>status := new_status\<rparr>;
               u2 = (if new_status = completed then u1\<lparr>completedAt := Some now\<rparr> else u1);
               updated = (if new_status = in_progress \<and> startedAt migration = None
                          then u2\<lparr>startedAt := Some now\<rparr> else u2)
           in Inr (updated, st\<lparr>migrations := AList.update i updated (migrations st)\<rparr>)))"

definition updateMigrationProgress ::
  "MemStorage \<Rightarrow> nat \<Rightarrow> int \<Rightarrow> js_error + Migration \<times> MemStorage" where
  "updateMigrationProgress st i new_progress =
     (case getMigration st i of
        None \<Rightarrow> Inl not_found
      | Some migration \<Rightarrow>
          (let updated = migration\<lparr>progress := new_progress\<rparr>
           in Inr (updated, st\<lparr>migrations := AList.update i updated (migrations st)\<rparr>)))"

definition updateMigrationError ::
  "MemStorage \<Rightarrow> nat \<Rightarrow> string \<Rightarrow> js_error + Migration \<times> MemStorage" where
  "updateMigrationError st i new_error =
     (case getMigration st i of
        None \<Rightarrow> Inl not_found
      | Some migration \<Rightarrow>
          (let updated = migration\<lparr>error := Some new_error\<rparr>
           in Inr (updated, st\<lparr>migrations := AList.update i updated (migrations st)\<rparr>)))"

definition getAllMigrations :: "MemStorage \<Rightarrow> Migration list" where
  "getAllMigrations st = map snd (migrations st)"


text \<open>
  A sequence of mutator calls, each on the identifier it names. A call that throws
  writes nothing, and the next call of the sequence runs on the unchanged store.
\<close>

datatype mutation =
    SetStatus nat MigrationStatus nat
  | SetProgress nat int
  | SetError nat string

definition written :: "MemStorage \<Rightarrow> js_error + Migration \<times> MemStorage \<Rightarrow> MemStorage" where
  "written st r = (case r of Inl e \<Rightarrow> st | Inr (m, st') \<Rightarrow> st')"

fun mutate :: "MemStorage \<Rightarrow> mutation \<Rightarrow> MemStorage" where
  "mutate st (SetStatus i s now) = written st (updateMigrationStatus st i s now)"
| "mutate st (SetProgress i p) = written st (updateMigrationProgress st i p)"
| "mutate st (SetError i e) = written st (updateMigrationError st i e)"

definition mutate_all :: "MemStorage \<Rightarrow> mutation list \<Rightarrow> MemStorage" where
  "mutate_all st ms = foldl mutate st ms"

text \<open>
  The clock value of the first status update of record \<open>i\<close> to \<^const>\<open>in_progress\<close>, if
  there is one.
\<close>

fun first_in_progress :: "nat \<Rightarrow> mutation list \<Rightarrow> nat option" where
  "first_in_progress i [] = None"
| "first_in_progress i (SetStatus j s now # ms) =
     (if j = i \<and> s = in_progress then Some now else first_in_progress i ms)"
| "first_in_progress i (_ # ms) = first_in_progress i ms"

section \<open>The transfer engine (server/routes.ts)\<close>

subsection \<open>What the engine's surroundings decide\<close>

text \<open>
  The outcome of a child process: exit status 0, a non-zero exit status with the captured
  standard error, or a failure to spawn with the system's message.
\<close>

datatype proc_outcome = Exit0 | ExitNonZero string | SpawnFailed string

text \<open>The calls the engine makes to the outside, in the order it makes them.\<close>

datatype ext_call =
    Exec string string
  | PostUserRepos "string option" string
  | Mkdtemp string
  | Rm string

text \<open>
  \<open>decrypt\<close> is \<^verbatim>\<open>utils/crypto.decrypt\<close>, kept abstract: any function from the stored
  form of a token to its plaintext or to a thrown error. \<open>tmpdir\<close> is \<^verbatim>\<open>os.tmpdir()\<close>,
  \<open>mkdtemp\<close> the characters \<^verbatim>\<open>mkdtempSync\<close> appends to a prefix, or its error,
  \<open>process\<close> the fate of a shell command run in a directory, \<open>post_user_repos\<close> the error
  of the request \<^verbatim>\<open>POST /user/repos\<close> with a name and a bearer token (\<open>None\<close> for a 2xx
  answer), \<open>rm\<close> the error of \<^verbatim>\<open>rmSync\<close> on a path (\<open>None\<close> when it succeeds), and
  \<open>date_now s\<close> the value of \<^verbatim>\<open>new Date()\<close> during the update to status \<open>s\<close>.
\<close>

record env =
  decrypt :: "string \<Rightarrow> js_error + string"
  tmpdir :: string
  mkdtemp :: "string \<Rightarrow> js_error + string"
  process :: "string \<Rightarrow> string \<Rightarrow> proc_outcome"
  post_user_repos :: "string option \<Rightarrow> string \<Rightarrow> js_error option"
  rm :: "string \<Rightarrow> js_error option"
  date_now :: "MigrationStatus \<Rightarrow> nat"

text \<open>
  What is written on the console: \<^verbatim>\<open>console.log\<close> of a text, or \<^verbatim>\<open>console.error\<close> of a
  text and an error object, which Node prints after the text in its own rendering.
\<close>

datatype console_line = ConsoleLog string | ConsoleError string js_error

text \<open>
  The state a run works on: the store, every record version written to it during the run
  (oldest first), the outside calls made, the console, the scratch directories that exist,
  and the local variable \<^verbatim>\<open>tempDir\<close>.
\<close>

record run_state =
  storage :: MemStorage
  commits :: "Migration list"
  calls :: "ext_call list"
  console :: "console_line list"
  dirs :: "string list"
  tempDir :: "string option"

type_synonym 'a io = "run_state \<Rightarrow> (js_error + 'a) \<times> run_state"

definition and_then :: "'a io \<Rightarrow> ('a \<Rightarrow> 'b io) \<Rightarrow> 'b io" where
  "and_then m f s = (case m s of (Inl e, s') \<Rightarrow> (Inl e, s') | (Inr a, s') \<Rightarrow> f a s')"

definition done_io :: "unit io" where
  "done_io s = (Inr (), s)"

definition lift :: "js_error + 'a \<Rightarrow> 'a io" where
  "lift r s = (r, s)"

definition console_log :: "string \<Rightarrow> unit io" where
  "console_log line s = (Inr (), s\<lparr>console := console s @ [ConsoleLog line]\<rparr>)"

definition console_error :: "string \<Rightarrow> js_error \<Rightarrow> unit io" where
  "console_error line e s = (Inr (), s\<lparr>console := console s @ [ConsoleError line e]\<rparr>)"

definition commit :: "js_error + Migration \<times> MemStorage \<Rightarrow> Migration io" where
  "commit r s =
     (case r of
        Inl e \<Rightarrow> (Inl e, s)
      | Inr (m, st') \<Rightarrow> (Inr m, s\<lparr>storage := st', commits := commits s @ [m]\<rparr>))"

definition storage_updateMigrationStatus :: "env \<Rightarrow> nat \<Rightarrow> MigrationStatus \<Rightarrow> Migration io" where
  "storage_updateMigrationStatus ev i new_status s =
     commit (updateMigrationStatus (storage s) i new_status (date_now ev new_status)) s"

definition storage_updateMigrationProgress :: "nat \<Rightarrow> int \<Rightarrow> Migration io" where
  "storage_updateMigrationProgress i new_progress s =
     commit (updateMigrationProgress (storage s) i new_progress) s"

definition storage_updateMigrationError :: "nat \<Rightarrow> string \<Rightarrow> Migration io" where
  "storage_updateMigrationError i new_error s =
     commit (updateMigrationError (storage s) i new_error) s"

text \<open>
  \<^verbatim>\<open>child_process.execSync(command, {cwd})\<close>: on a non-zero exit status Node throws an
  error whose message is \<^verbatim>\<open>Command failed: \<close> followed by the command and, when
  there is any, a newline and the captured standard error; a spawn failure throws the
  system's error.
\<close>

definition exec_failure :: "string \<Rightarrow> proc_outcome \<Rightarrow> js_error option" where
  "exec_failure command outcome =
     (case outcome of
        Exit0 \<Rightarrow> None
      | ExitNonZero err \<Rightarrow>
          Some (JsError (''Command failed: '' @ command @
                         (if err = [] then [] else newline # err)) None)
      | SpawnFailed msg \<Rightarrow> Some (JsError msg None))"

definition execSync :: "env \<Rightarrow> string \<Rightarrow> string \<Rightarrow> unit io" where
  "execSync ev command cwd s =
     (let s' = s\<lparr>calls := calls s @ [Exec command cwd]\<rparr>
      in case exec_failure command (process ev command cwd) of
           None \<Rightarrow> (Inr (), s')
         | Some e \<Rightarrow> (Inl e, s'))"

text \<open>
  \<^verbatim>\<open>path.join(dir, name)\<close> for a directory without a trailing separator and a plain
  name.
\<close>

definition join_path :: "string \<Rightarrow> string \<Rightarrow> string" where
  "join_path dir name = dir @ ''/'' @ name"

text \<open>
  \<^verbatim>\<open>tempDir = mkdtempSync(prefix)\<close>: the directory made is the prefix followed by the
  generated characters, and the variable is assigned only when the call returns.
\<close>

definition mkdtempSync :: "env \<Rightarrow> string \<Rightarrow> string io" where
  "mkdtempSync ev prefix s =
     (let s' = s\<lparr>calls := calls s @ [Mkdtemp prefix]\<rparr>
      in case mkdtemp ev prefix of
           Inl e \<Rightarrow> (Inl e, s')
         | Inr suffix \<Rightarrow>
             (Inr (prefix @ suffix),
              s'\<lparr>dirs := (prefix @ suffix) # dirs s', tempDir := Some (prefix @ suffix)\<rparr>))"

text \<open>
  \<^verbatim>\<open>sanitizeRepoName(sourceRepo)\<close> where \<^verbatim>\<open>sourceRepo\<close> may be undefined: calling
  \<^verbatim>\<open>toLowerCase\<close> on undefined throws a TypeError.
\<close>

definition call_sanitizeRepoName :: "string option \<Rightarrow> js_error + string" where
  "call_sanitizeRepoName repoName =
     (case repoName of
        None \<Rightarrow> Inl (JsError ''Cannot read properties of undefined (reading 'toLowerCase')'' None)
      | Some r \<Rightarrow> Inr (sanitizeRepoName r))"

text \<open>
  The inner try/catch around the creation request: an error whose response has status 422
  is dropped, every other error (one without a response too) is thrown again.
\<close>

definition create_repository :: "env \<Rightarrow> Migration \<Rightarrow> string \<Rightarrow> unit io" where
  "create_repository ev migration githubToken' s =
     (let ownerAndRepo = js_split (targetRepo migration) ''/'';
          s' = s\<lparr>calls := calls s @ [PostUserRepos (index ownerAndRepo 1) githubToken']\<rparr>
      in case post_user_repos ev (index ownerAndRepo 1) githubToken' of
           None \<Rightarrow> (Inr (), s')
         | Some e \<Rightarrow>
             (if map_option http_status (response e) \<noteq> Some 422 then (Inl e, s')
              else (Inr (), s')))"

definition azureUrl :: "Migration \<Rightarrow> string \<Rightarrow> string" where
  "azureUrl migration azureToken' =
     ''https://:'' @ azureToken' @ ''@dev.azure.com/'' @
     interpolate (index (js_split (sourceRepo migration) ''dev.azure.com/'') 1)"

definition githubUrl :: "Migration \<Rightarrow> string \<Rightarrow> string" where
  "githubUrl migration githubToken' =
     ''https://'' @ githubToken' @ ''@github.com/'' @ targetRepo migration @ ''.git''"

definition clone_command :: "string \<Rightarrow> string" where
  "clone_command url = ''git clone --mirror '' @ [dquote] @ url @ [dquote] @ '' .''"

definition set_url_command :: "string \<Rightarrow> string" where
  "set_url_command url = ''git remote set-url origin '' @ [dquote] @ url @ [dquote]"

subsection \<open>migrateRepository\<close>

text \<open>The statements of the try block from the clone on, run in the scratch directory.\<close>

definition transfer :: "env \<Rightarrow> Migration \<Rightarrow> string \<Rightarrow> string \<Rightarrow> string \<Rightarrow> unit io" where
  "transfer ev migration azureToken' githubToken' dir =
     and_then (console_log ''Cloning Azure repository...'') (\<lambda>_.
     and_then (execSync ev (clone_command (azureUrl migration azureToken')) dir) (\<lambda>_.
     and_then (create_repository ev migration githubToken') (\<lambda>_.
     and_then (console_log ''Setting up GitHub remote...'') (\<lambda>_.
     and_then (execSync ev (set_url_command (githubUrl migration githubToken')) dir) (\<lambda>_.
     and_then (console_log ''Pushing to GitHub...'') (\<lambda>_.
     and_then (execSync ev ''git push --mirror'' dir) (\<lambda>_.
     and_then (storage_updateMigrationProgress (migration_id migration) 90) (\<lambda>_.
     and_then (storage_updateMigrationStatus ev (migration_id migration) completed) (\<lambda>_.
     and_then (storage_updateMigrationProgress (migration_id migration) 100) (\<lambda>_.
     console_log (''Migration completed for '' @ sourceRepo migration)))))))))))"

definition try_block :: "env \<Rightarrow> Migration \<Rightarrow> unit io" where
  "try_block ev migration =
     and_then (storage_updateMigrationStatus ev (migration_id migration) in_progress) (\<lambda>_.
     and_then (storage_updateMigrationProgress (migration_id migration) 10) (\<lambda>_.
     and_then (lift (decrypt ev (azureToken migration))) (\<lambda>azureToken'.
     and_then (lift (decrypt ev (githubToken migration))) (\<lambda>githubToken'.
     and_then (lift (call_sanitizeRepoName
                 (index (slice_last2 (js_split (sourceRepo migration) ''/'')) 1))) (\<lambda>sanitizedRepoName.
     and_then (console_log (''Starting migration for '' @ sourceRepo migration @
                            '' to '' @ targetRepo migration)) (\<lambda>_.
     and_then (storage_updateMigrationProgress (migration_id migration) 20) (\<lambda>_.
     and_then (mkdtempSync ev (join_path (tmpdir ev) ''repo-migration-'')) (\<lambda>dir.
     and_then (console_log (''Created temporary directory: '' @ dir)) (\<lambda>_.
     and_then (storage_updateMigrationProgress (migration_id migration) 40) (\<lambda>_.
     transfer ev migration azureToken' githubToken' dir))))))))))"

text \<open>
  \<^verbatim>\<open>error.response?.data?.message || error.message || "Migration failed"\<close>: the first
  of the three that is neither undefined nor the empty string.
\<close>

definition errorMessage :: "js_error \<Rightarrow> string" where
  "errorMessage e =
     (let payload = (case response e of None \<Rightarrow> None | Some r \<Rightarrow> data_message r)
      in if truthy payload then the payload
         else if message e \<noteq> [] then message e
         else ''Migration failed'')"

definition catch_block :: "env \<Rightarrow> Migration \<Rightarrow> js_error \<Rightarrow> unit io" where
  "catch_block ev migration e =
     and_then (console_error (''Migration failed for '' @ sourceRepo migration @ '':'') e) (\<lambda>_.
     and_then (storage_updateMigrationStatus ev (migration_id migration) failed) (\<lambda>_.
     and_then (storage_updateMigrationError (migration_id migration) (errorMessage e)) (\<lambda>_.
     done_io)))"

text \<open>
  The finally block: \<^verbatim>\<open>if (tempDir)\<close> skips \<^verbatim>\<open>null\<close> and the empty string; the removal
  has its own try/catch, so the block throws nothing.
\<close>

definition finally_block :: "env \<Rightarrow> run_state \<Rightarrow> run_state" where
  "finally_block ev s =
     (if truthy (tempDir s)
      then (let d = the (tempDir s);
                s' = s\<lparr>calls := calls s @ [Rm d]\<rparr>
            in case rm ev d of
                 None \<Rightarrow>
                   s'\<lparr>dirs := removeAll d (dirs s'),
                      console := console s' @ [ConsoleLog ''Cleaned up temporary directory'']\<rparr>
               | Some err \<Rightarrow>
                   s'\<lparr>console := console s' @
                        [ConsoleError ''Error cleaning up temporary directory:'' err]\<rparr>)
      else s)"

text \<open>
  The whole function. The first component is the error the returned promise rejects
  with, \<open>None\<close> when it resolves.
\<close>

definition migrateRepository :: "env \<Rightarrow> Migration \<Rightarrow> run_state \<Rightarrow> js_error option \<times> run_state" where
  "migrateRepository ev migration s0 =
     (case try_block ev migration (s0\<lparr>tempDir := None\<rparr>) of
        (Inr _, s1) \<Rightarrow> (None, finally_block ev s1)
      | (Inl e, s1) \<Rightarrow>
          (case catch_block ev migration e s1 of
             (Inr _, s2) \<Rightarrow> (None, finally_block ev s2)
           | (Inl e', s2) \<Rightarrow> (Some e', finally_block ev s2)))"

subsection \<open>The routes that create and read records\<close>

text \<open>
  \<^verbatim>\<open>POST /api/migrations\<close> builds \<^verbatim>\<open>migrationData\<close> from the source repository's
  remote URL, the target name and the two encrypted tokens of the session.
\<close>

definition migrationData :: "string \<Rightarrow> string \<Rightarrow> string \<Rightarrow> string \<Rightarrow> InsertMigration" where
  "migrationData remoteUrl targetRepo' userToken userGithubToken =
     \<lparr>ins_sourceRepo = remoteUrl,
      ins_targetRepo = targetRepo',
      ins_status = pending,
      ins_azureToken = userToken,
      ins_githubToken = userGithubToken,
      ins_pipelineConfig = Some \<lparr>convertClassicPipelines = True, migrateVariableGroups = True,
        migrateServiceConnections = True, migrateEnvironments = True\<rparr>,
      ins_migrationMode = None,
      ins_folderPath = None\<rparr>"

definition fresh_state :: "MemStorage \<Rightarrow> run_state" where
  "fresh_state st =
     \<lparr>storage = st, commits = [], calls = [], console = [], dirs = [], tempDir = None\<rparr>"





section \<open>Descriptions used in the statements\<close>

text \<open>The record \<^const>\<open>updateMigrationStatus\<close> writes in place of a record \<open>m\<close>.\<close>

definition with_status :: "Migration \<Rightarrow> MigrationStatus \<Rightarrow> nat \<Rightarrow> Migration" where
  "with_status m s now =
     (let u1 = m\<lparr>status := s\<rparr>;
          u2 = (if s = completed then u1\<lparr>completedAt := Some now\<rparr> else u1)
      in if s = in_progress \<and> startedAt m = None then u2\<lparr>startedAt := Some now\<rparr> else u2)"

text \<open>The store after \<^verbatim>\<open>this.migrations.set(i, m)\<close>.\<close>

definition stored :: "nat \<Rightarrow> Migration \<Rightarrow> MemStorage \<Rightarrow> MemStorage" where
  "stored i m st = st\<lparr>migrations := AList.update i m (migrations st)\<rparr>"


text \<open>
  The record versions a run writes, starting from the stored record \<open>m\<close>: the four
  checkpoints of the try block up to the scratch directory, the three commits that end a
  successful transfer, and the two commits of the catch block.
\<close>

definition checkpoints :: "env \<Rightarrow> Migration \<Rightarrow> Migration list" where
  "checkpoints ev m =
     (let c = with_status m in_progress (date_now ev in_progress)
      in [c, c\<lparr>progress := 10\<rparr>, c\<lparr>progress := 20\<rparr>, c\<lparr>progress := 40\<rparr>])"

definition completed_commits :: "env \<Rightarrow> Migration \<Rightarrow> Migration list" where
  "completed_commits ev m =
     (let c = with_status (m\<lparr>progress := 90\<rparr>) completed (date_now ev completed)
      in [m\<lparr>progress := 90\<rparr>, c, c\<lparr>progress := 100\<rparr>])"

definition failed_commits :: "env \<Rightarrow> Migration \<Rightarrow> js_error \<Rightarrow> Migration list" where
  "failed_commits ev m e =
     (let c = with_status m failed (date_now ev failed)
      in [c, c\<lparr>error := Some (errorMessage e)\<rparr>])"

definition success_trace :: "env \<Rightarrow> Migration \<Rightarrow> Migration list" where
  "success_trace ev m = checkpoints ev m @ completed_commits ev (last (checkpoints ev m))"

definition failure_trace :: "env \<Rightarrow> Migration \<Rightarrow> nat \<Rightarrow> js_error \<Rightarrow> Migration list" where
  "failure_trace ev m n e =
     take n (checkpoints ev m) @ failed_commits ev (last (take n (checkpoints ev m))) e"

text \<open>
  The prefix the engine passes to \<^verbatim>\<open>mkdtempSync\<close>, and the directory the call makes
  for it (or its error).
\<close>

definition scratch_prefix :: "env \<Rightarrow> string" where
  "scratch_prefix ev = join_path (tmpdir ev) ''repo-migration-''"

definition made_dir :: "env \<Rightarrow> js_error + string" where
  "made_dir ev =
     (case mkdtemp ev (scratch_prefix ev) of
        Inl e \<Rightarrow> Inl e
      | Inr suffix \<Rightarrow> Inr (scratch_prefix ev @ suffix))"

text \<open>
  The stages of a transfer, read off the surroundings alone: the error of the creation
  request that is not dropped; the error of the first of clone, creation, re-pointing of
  the remote and push that fails in the scratch directory \<open>d\<close>; and the error of the first
  stage of the whole try block that fails, \<open>None\<close> when every stage succeeds.
\<close>

definition creation_failure :: "env \<Rightarrow> Migration \<Rightarrow> string \<Rightarrow> js_error option" where
  "creation_failure ev migration githubToken' =
     (case post_user_repos ev (index (js_split (targetRepo migration) ''/'') 1) githubToken' of
        None \<Rightarrow> None
      | Some e \<Rightarrow> if map_option http_status (response e) = Some 422 then None else Some e)"

definition transfer_failure ::
  "env \<Rightarrow> Migration \<Rightarrow> string \<Rightarrow> string \<Rightarrow> string \<Rightarrow> js_error option" where
  "transfer_failure ev migration azureToken' githubToken' d =
     (case exec_failure (clone_command (azureUrl migration azureToken'))
             (process ev (clone_command (azureUrl migration azureToken')) d) of
        Some e \<Rightarrow> Some e
      | None \<Rightarrow>
          (case creation_failure ev migration githubToken' of
             Some e \<Rightarrow> Some e
           | None \<Rightarrow>
               (case exec_failure (set_url_command (githubUrl migration githubToken'))
                       (process ev (set_url_command (githubUrl migration githubToken')) d) of
                  Some e \<Rightarrow> Some e
                | None \<Rightarrow>
                    exec_failure ''git push --mirror'' (process ev ''git push --mirror'' d))))"

definition stage_failure :: "env \<Rightarrow> Migration \<Rightarrow> js_error option" where
  "stage_failure ev migration =
     (case decrypt ev (azureToken migration) of
        Inl e \<Rightarrow> Some e
      | Inr a \<Rightarrow>
          (case decrypt ev (githubToken migration) of
             Inl e \<Rightarrow> Some e
           | Inr g \<Rightarrow>
               (case call_sanitizeRepoName
                       (index (slice_last2 (js_split (sourceRepo migration) ''/'')) 1) of
                  Inl e \<Rightarrow> Some e
                | Inr _ \<Rightarrow>
                    (case made_dir ev of
                       Inl e \<Rightarrow> Some e
                     | Inr d \<Rightarrow> transfer_failure ev migration a g d))))"



text \<open>
  How many checkpoints are written before the try block can first fail: two when a
  decryption or the name of the source repository fails, three when the scratch directory
  cannot be made, four from then on.
\<close>

definition reached :: "env \<Rightarrow> Migration \<Rightarrow> nat" where
  "reached ev migration =
     (case decrypt ev (azureToken migration) of
        Inl _ \<Rightarrow> 2
      | Inr _ \<Rightarrow>
          (case decrypt ev (githubToken migration) of
             Inl _ \<Rightarrow> 2
           | Inr _ \<Rightarrow>
               (case call_sanitizeRepoName
                       (index (slice_last2 (js_split (sourceRepo migration) ''/'')) 1) of
                  Inl _ \<Rightarrow> 2
                | Inr _ \<Rightarrow> (case made_dir ev of Inl _ \<Rightarrow> 3 | Inr _ \<Rightarrow> 4))))"

definition run_trace :: "env \<Rightarrow> Migration \<Rightarrow> Migration \<Rightarrow> js_error + unit \<Rightarrow> Migration list" where
  "run_trace ev migration m r =
     (case r of
        Inr _ \<Rightarrow> success_trace ev m
      | Inl e \<Rightarrow> failure_trace ev m (reached ev migration) e)"

text \<open>
  What the try block leaves of the scratch directory: the directory list grows by the
  value of \<^verbatim>\<open>tempDir\<close>, which is not the empty string, and \<^verbatim>\<open>tempDir\<close> is what
  \<^verbatim>\<open>mkdtempSync\<close> returned if it was called.
\<close>

definition workspace_kept :: "env \<Rightarrow> run_state \<Rightarrow> run_state \<Rightarrow> bool" where
  "workspace_kept ev s s' \<longleftrightarrow>
     dirs s' = (case tempDir s' of None \<Rightarrow> dirs s | Some d \<Rightarrow> d # dirs s) \<and>
     tempDir s' \<noteq> Some [] \<and>
     (Mkdtemp (scratch_prefix ev) \<in> set (calls s') \<longrightarrow>
        Mkdtemp (scratch_prefix ev) \<in> set (calls s) \<or>
        tempDir s' = (case made_dir ev of Inl _ \<Rightarrow> None | Inr d \<Rightarrow> Some d))"

text \<open>
  The two combinations a reader of the record is not to see: failed without an error
  text, completed with a progress other than 100.
\<close>

definition consistent :: "Migration \<Rightarrow> bool" where
  "consistent m \<longleftrightarrow>
     \<not> (status m = failed \<and> error m = None) \<and> \<not> (status m = completed \<and> progress m \<noteq> 100)"

subsection \<open>Concrete inputs\<close>

text \<open>
  A request as the route builds it, the store and the record after creating it in an
  empty store, and a sequence of mutator calls.
\<close>

definition example_request :: InsertMigration where
  "example_request =
     migrationData ''https://org@dev.azure.com/org/proj/_git/My Repo'' ''octo/My Repo''
       ''enc-azure'' ''enc-github''"

definition example_store :: MemStorage where
  "example_store = snd (createMigration MemStorage_new example_request)"

definition example_record :: Migration where
  "example_record = fst (createMigration MemStorage_new example_request)"

definition example_mutations :: "mutation list" where
  "example_mutations =
     [SetProgress 1 5, SetStatus 2 in_progress 2, SetStatus 1 in_progress 3, SetStatus 1 failed 4,
      SetStatus 1 in_progress 8]"

text \<open>
  Surroundings in which the source token decrypts to \<open>secret\<close>, the clone command ends as
  \<open>clone\<close> says, every other command succeeds, the creation request is answered with
  \<open>created\<close>, and the scratch directory can be removed; and the state a run of the engine
  on the example record leaves there.
\<close>

definition example_env :: "string \<Rightarrow> proc_outcome \<Rightarrow> js_error option \<Rightarrow> env" where
  "example_env secret clone created =
     \<lparr>decrypt = (\<lambda>c. Inr (if c = ''enc-azure'' then secret else ''gh-token'')),
      tmpdir = ''/tmp'',
      mkdtemp = (\<lambda>prefix. Inr ''Ab12Cd''),
      process = (\<lambda>command cwd. if take 9 command = ''git clone'' then clone else Exit0),
      post_user_repos = (\<lambda>name token. created),
      rm = (\<lambda>path. None),
      date_now = (\<lambda>s. case s of in_progress \<Rightarrow> 1 | completed \<Rightarrow> 3 | _ \<Rightarrow> 2)\<rparr>"

definition example_run :: "string \<Rightarrow> proc_outcome \<Rightarrow> js_error option \<Rightarrow> run_state" where
  "example_run secret clone created =
     snd (migrateRepository (example_env secret clone created) example_record
            (fresh_state example_store))"





text \<open>
  Answers of the target host to the creation request: the repository exists; the
  request is invalid for another reason; the token may not create repositories.
\<close>

definition validation_failed :: js_error where
  "validation_failed =
     JsError ''Request failed with status code 422''
       (Some (HttpResponse 422 (Some ''Validation Failed'')))"

definition forbidden :: js_error where
  "forbidden =
     JsError ''Request failed with status code 403''
       (Some (HttpResponse 403 (Some ''Resource not accessible by personal access token'')))"

definition conflict :: js_error where
  "conflict =
     JsError ''Request failed with status code 422''
       (Some (HttpResponse 422 (Some ''Repository creation failed.'')))"

section \<open>Normalization: proofs\<close>

lemma name_char_lower: "name_char c \<Longrightarrow> toLowerCase_char c = c"
  unfolding name_char_def toLowerCase_char_def by auto

lemma collapse_head: "\<exists>r. collapse_dashes (d # cs) = d # r"
  by (induction cs arbitrary: d) auto

lemma collapse_no_double: "no_double_dash (collapse_dashes s)"
proof (induction s rule: collapse_dashes.induct)
  case (1 c d cs)
  obtain r where r: "collapse_dashes (d # cs) = d # r"
    using collapse_head by blast
  with 1 show ?case by auto
qed simp_all

lemma collapse_fixed: "no_double_dash s \<Longrightarrow> collapse_dashes s = s"
  by (induction s rule: collapse_dashes.induct) auto

lemma set_collapse: "set (collapse_dashes s) \<subseteq> set s"
  by (induction s rule: collapse_dashes.induct) auto

lemma no_double_butlast: "no_double_dash s \<Longrightarrow> no_double_dash (butlast s)"
  by (induction s rule: no_double_dash.induct) (auto split: if_splits)

lemma no_double_tl: "no_double_dash (c # s) \<Longrightarrow> no_double_dash s"
  by (cases s) auto

lemma no_double_second: "no_double_dash (CHR ''-'' # s) \<Longrightarrow> s \<noteq> [] \<Longrightarrow> hd s \<noteq> CHR ''-''"
  by (cases s) auto

lemma no_double_last:
  "no_double_dash s \<Longrightarrow> s \<noteq> [] \<Longrightarrow> last s = CHR ''-'' \<Longrightarrow> butlast s \<noteq> [] \<Longrightarrow>
   last (butlast s) \<noteq> CHR ''-''"
  by (induction s rule: no_double_dash.induct) (auto split: if_splits)

lemma hd_butlast: "butlast s \<noteq> [] \<Longrightarrow> hd (butlast s) = hd s"
  by (cases s) (auto split: if_splits)

lemma leading_no_double: "no_double_dash s \<Longrightarrow> no_double_dash (drop_leading_dash s)"
  by (auto simp: drop_leading_dash_def split: list.splits dest: no_double_tl)

lemma leading_hd:
  "no_double_dash s \<Longrightarrow> drop_leading_dash s \<noteq> [] \<Longrightarrow> hd (drop_leading_dash s) \<noteq> CHR ''-''"
  by (auto simp: drop_leading_dash_def split: list.splits if_splits dest: no_double_second)

lemma trailing_no_double: "no_double_dash s \<Longrightarrow> no_double_dash (drop_trailing_dash s)"
  by (simp add: drop_trailing_dash_def no_double_butlast)

lemma trailing_trimmed:
  assumes nd: "no_double_dash s" and h: "s \<noteq> [] \<Longrightarrow> hd s \<noteq> CHR ''-''"
  shows "trimmed (drop_trailing_dash s)"
proof (cases "s \<noteq> [] \<and> last s = CHR ''-''")
  case True
  then have eq: "drop_trailing_dash s = butlast s"
    by (simp add: drop_trailing_dash_def)
  have "butlast s \<noteq> [] \<Longrightarrow> last (butlast s) \<noteq> CHR ''-''"
    using no_double_last [OF nd] True by blast
  moreover have "butlast s \<noteq> [] \<Longrightarrow> hd (butlast s) \<noteq> CHR ''-''"
    using h True by (simp add: hd_butlast)
  ultimately show ?thesis
    unfolding eq trimmed_def by blast
next
  case False
  then have "drop_trailing_dash s = s"
    by (auto simp: drop_trailing_dash_def)
  with False h show ?thesis
    by (auto simp: trimmed_def)
qed

lemma trimmed_fixed: "trimmed s \<Longrightarrow> drop_trailing_dash (drop_leading_dash s) = s"
  by (cases s) (auto simp: trimmed_def drop_leading_dash_def drop_trailing_dash_def)

lemma set_trailing: "set (drop_trailing_dash s) \<subseteq> set s"
  by (auto simp: drop_trailing_dash_def dest: in_set_butlastD)

lemma set_leading: "set (drop_leading_dash s) \<subseteq> set s"
  by (auto simp: drop_leading_dash_def split: list.splits if_splits)

lemma sanitize_chars: "c \<in> set (sanitizeRepoName s) \<Longrightarrow> name_char c"
proof -
  assume "c \<in> set (sanitizeRepoName s)"
  then have "c \<in> set (replace_invalid (toLowerCase s))"
    using set_trailing set_leading set_collapse unfolding sanitizeRepoName_def by blast
  then show ?thesis
    by (auto simp: replace_invalid_def name_char_def)
qed

lemma sanitize_no_double: "no_double_dash (sanitizeRepoName s)"
  unfolding sanitizeRepoName_def
  by (intro trailing_no_double leading_no_double collapse_no_double)

lemma sanitize_trimmed: "trimmed (sanitizeRepoName s)"
  unfolding sanitizeRepoName_def
  by (intro trailing_trimmed leading_no_double leading_hd collapse_no_double)

lemma sanitize_fixed:
  assumes ch: "\<forall>c \<in> set t. name_char c" and nd: "no_double_dash t" and tr: "trimmed t"
  shows "sanitizeRepoName t = t"
proof -
  have "toLowerCase t = t"
    unfolding toLowerCase_def using ch by (simp add: map_idI name_char_lower)
  moreover have "replace_invalid t = t"
    unfolding replace_invalid_def using ch by (simp add: map_idI)
  ultimately have "sanitizeRepoName t = drop_trailing_dash (drop_leading_dash (collapse_dashes t))"
    by (simp add: sanitizeRepoName_def)
  also have "\<dots> = t"
    using nd tr by (simp add: collapse_fixed trimmed_fixed)
  finally show ?thesis .
qed

text \<open>
  C9. Normalizing a normalized name changes nothing, for every input string; and the two
  examples of the specification, \<^verbatim>\<open>"My Repo!!"\<close> and \<^verbatim>\<open>"--Foo--"\<close>, normalize to
  \<^verbatim>\<open>"my-repo"\<close> and \<^verbatim>\<open>"foo"\<close>.
\<close>

theorem sanitizeRepoName_idempotent:
  "sanitizeRepoName (sanitizeRepoName s) = sanitizeRepoName s \<and>
   sanitizeRepoName ''My Repo!!'' = ''my-repo'' \<and>
   sanitizeRepoName ''--Foo--'' = ''foo''"
proof -
  have "sanitizeRepoName (sanitizeRepoName s) = sanitizeRepoName s"
    using sanitize_chars sanitize_no_double sanitize_trimmed
    by (intro sanitize_fixed) blast+
  moreover have "sanitizeRepoName ''My Repo!!'' = ''my-repo''"
    by code_simp
  moreover have "sanitizeRepoName ''--Foo--'' = ''foo''"
    by code_simp
  ultimately show ?thesis by blast
qed

section \<open>The store: proofs\<close>

lemma getMigration_update [simp]:
  "getMigration (st\<lparr>migrations := AList.update i m (migrations st)\<rparr>) j =
     (if j = i then Some m else getMigration st j)"
  by (simp add: getMigration_def update_conv')

lemma updateMigrationProgress_found:
  "getMigration st i = Some m \<Longrightarrow>
   updateMigrationProgress st i p =
     Inr (m\<lparr>progress := p\<rparr>,
          st\<lparr>migrations := AList.update i (m\<lparr>progress := p\<rparr>) (migrations st)\<rparr>)"
  by (simp add: updateMigrationProgress_def Let_def)

lemma updateMigrationError_found:
  "getMigration st i = Some m \<Longrightarrow>
   updateMigrationError st i e =
     Inr (m\<lparr>error := Some e\<rparr>,
          st\<lparr>migrations := AList.update i (m\<lparr>error := Some e\<rparr>) (migrations st)\<rparr>)"
  by (simp add: updateMigrationError_def Let_def)

lemma updateMigrationStatus_found:
  "getMigration st i = Some m \<Longrightarrow>
   updateMigrationStatus st i s now =
     Inr (with_status m s now,
          st\<lparr>migrations := AList.update i (with_status m s now) (migrations st)\<rparr>)"
  by (simp add: updateMigrationStatus_def with_status_def Let_def)

lemma mutate_found:
  assumes "getMigration st i = Some m"
  shows "getMigration (mutate st mu) i =
     Some (case mu of
             SetStatus j s now \<Rightarrow> if j = i then with_status m s now else m
           | SetProgress j p \<Rightarrow> if j = i then m\<lparr>progress := p\<rparr> else m
           | SetError j e \<Rightarrow> if j = i then m\<lparr>error := Some e\<rparr> else m)"
proof (cases mu)
  case (SetStatus j s now)
  then show ?thesis
    using assms
    by (cases "getMigration st j")
       (auto simp: written_def updateMigrationStatus_def with_status_def Let_def)
next
  case (SetProgress j p)
  then show ?thesis
    using assms
    by (cases "getMigration st j")
       (auto simp: written_def updateMigrationProgress_def Let_def)
next
  case (SetError j e)
  then show ?thesis
    using assms
    by (cases "getMigration st j")
       (auto simp: written_def updateMigrationError_def Let_def)
qed

lemma mutate_startedAt:
  "getMigration st i = Some m \<Longrightarrow>
   \<exists>m'. getMigration (mutate st mu) i = Some m' \<and>
        startedAt m' =
          (case startedAt m of Some t \<Rightarrow> Some t | None \<Rightarrow> first_in_progress i [mu])"
  using mutate_found [of st i m mu]
  by (cases mu) (auto simp: with_status_def Let_def simp del: mutate.simps split: option.splits)

lemma first_in_progress_Cons:
  "first_in_progress i (mu # ms) =
     (case first_in_progress i [mu] of Some t \<Rightarrow> Some t | None \<Rightarrow> first_in_progress i ms)"
  by (cases mu) auto

lemma createMigration_fields:
  "status (fst (createMigration st r)) = ins_status r"
  "progress (fst (createMigration st r)) = 0"
  "error (fst (createMigration st r)) = None"
  "startedAt (fst (createMigration st r)) = None"
  "completedAt (fst (createMigration st r)) = None"
  "migration_id (fst (createMigration st r)) = currentId st"
  "currentId (snd (createMigration st r)) = js_increment (currentId st)"
  "getMigration (snd (createMigration st r)) (currentId st) = Some (fst (createMigration st r))"
  by (simp_all add: createMigration_def Let_def getMigration_def update_conv')










text \<open>
  C10. Over every sequence of mutator calls, on any identifiers, the start time of a
  stored record at the end is the one it had, if it had one, and otherwise the clock
  value of the first status update of that record to \<^const>\<open>in_progress\<close> in the
  sequence; it is unset when there is no such update. So it is written once, by that
  update, and no later call changes it.
\<close>

theorem startedAt_set_once:
  assumes "getMigration st i = Some m"
  shows "\<exists>m'. getMigration (mutate_all st ms) i = Some m' \<and>
           startedAt m' =
             (case startedAt m of Some t \<Rightarrow> Some t | None \<Rightarrow> first_in_progress i ms)"
  using assms
proof (induction ms arbitrary: st m)
  case Nil
  then show ?case by (simp add: mutate_all_def split: option.splits)
next
  case (Cons mu ms)
  obtain m1 where m1: "getMigration (mutate st mu) i = Some m1"
    and s1: "startedAt m1 =
      (case startedAt m of Some t \<Rightarrow> Some t | None \<Rightarrow> first_in_progress i [mu])"
    using mutate_startedAt [OF Cons.prems] by blast
  obtain m' where m': "getMigration (mutate_all (mutate st mu) ms) i = Some m'"
    and s': "startedAt m' =
      (case startedAt m1 of Some t \<Rightarrow> Some t | None \<Rightarrow> first_in_progress i ms)"
    using Cons.IH [OF m1] by blast
  have "mutate_all st (mu # ms) = mutate_all (mutate st mu) ms"
    by (simp add: mutate_all_def)
  moreover have "startedAt m' =
      (case startedAt m of Some t \<Rightarrow> Some t | None \<Rightarrow> first_in_progress i (mu # ms))"
    using s' s1 by (subst first_in_progress_Cons) (auto split: option.splits)
  ultimately show ?case using m' by simp
qed

theorem startedAt_set_once_witness:
  "getMigration example_store 1 = Some example_record \<and>
   startedAt example_record = None \<and>
   (\<exists>m'. getMigration (mutate_all example_store example_mutations) 1 = Some m' \<and>
         startedAt m' = Some 3)"
proof -
  have h: "getMigration example_store 1 = Some example_record"
    using createMigration_fields(8) [of MemStorage_new example_request]
    by (simp add: example_store_def example_record_def MemStorage_new_def)
  have n: "startedAt example_record = None"
    by (simp add: example_record_def createMigration_fields)
  show ?thesis
    using h n startedAt_set_once [OF h, of example_mutations]
    by (simp add: example_mutations_def)
qed

section \<open>The engine: proofs\<close>

lemma storage_updateMigrationProgress_found:
  "getMigration (storage s) i = Some m \<Longrightarrow>
   storage_updateMigrationProgress i p s =
     (Inr (m\<lparr>progress := p\<rparr>),
      s\<lparr>storage := (storage s)\<lparr>migrations := AList.update i (m\<lparr>progress := p\<rparr>) (migrations (storage s))\<rparr>,
        commits := commits s @ [m\<lparr>progress := p\<rparr>]\<rparr>)"
  by (simp add: storage_updateMigrationProgress_def commit_def updateMigrationProgress_found)

lemma storage_updateMigrationError_found:
  "getMigration (storage s) i = Some m \<Longrightarrow>
   storage_updateMigrationError i e s =
     (Inr (m\<lparr>error := Some e\<rparr>),
      s\<lparr>storage := (storage s)\<lparr>migrations := AList.update i (m\<lparr>error := Some e\<rparr>) (migrations (storage s))\<rparr>,
        commits := commits s @ [m\<lparr>error := Some e\<rparr>]\<rparr>)"
  by (simp add: storage_updateMigrationError_def commit_def updateMigrationError_found)

lemma storage_updateMigrationStatus_found:
  "getMigration (storage s) i = Some m \<Longrightarrow>
   storage_updateMigrationStatus ev i st s =
     (Inr (with_status m st (date_now ev st)),
      s\<lparr>storage := (storage s)\<lparr>migrations := AList.update i (with_status m st (date_now ev st)) (migrations (storage s))\<rparr>,
        commits := commits s @ [with_status m st (date_now ev st)]\<rparr>)"
  by (simp add: storage_updateMigrationStatus_def commit_def updateMigrationStatus_found)

lemmas found = storage_updateMigrationProgress_found storage_updateMigrationError_found
  storage_updateMigrationStatus_found

lemmas io_defs = and_then_def lift_def console_log_def console_error_def done_io_def execSync_def exec_failure_def
  create_repository_def mkdtempSync_def

lemma stored_simps [simp]:
  "getMigration (stored i m st) j = (if j = i then Some m else getMigration st j)"
  "stored i m' (stored i m st) = stored i m' st"
  "currentId (stored i m st) = currentId st"
  by (simp_all add: stored_def)

lemma transfer_result:
  assumes "getMigration (storage s) (migration_id mig) = Some m"
  shows "case transfer ev mig a g d s of
           (Inr _, s') \<Rightarrow>
             transfer_failure ev mig a g d = None \<and>
             commits s' = commits s @ completed_commits ev m \<and>
             getMigration (storage s') (migration_id mig) = Some (last (completed_commits ev m)) \<and>
             storage s' = stored (migration_id mig) (last (completed_commits ev m)) (storage s) \<and>
             tempDir s' = tempDir s \<and> dirs s' = dirs s \<and>
             (Mkdtemp p \<in> set (calls s')) = (Mkdtemp p \<in> set (calls s))
         | (Inl e, s') \<Rightarrow>
             transfer_failure ev mig a g d = Some e \<and>
             commits s' = commits s \<and> getMigration (storage s') (migration_id mig) = Some m \<and>
             storage s' = storage s \<and>
             tempDir s' = tempDir s \<and> dirs s' = dirs s \<and>
             (Mkdtemp p \<in> set (calls s')) = (Mkdtemp p \<in> set (calls s))"
proof -
  let ?clone = "exec_failure (clone_command (azureUrl mig a))
      (process ev (clone_command (azureUrl mig a)) d)"
  let ?seturl = "exec_failure (set_url_command (githubUrl mig g))
      (process ev (set_url_command (githubUrl mig g)) d)"
  let ?push = "exec_failure ''git push --mirror'' (process ev ''git push --mirror'' d)"
  note steps = transfer_def and_then_def console_log_def execSync_def found
    completed_commits_def transfer_failure_def stored_def Let_def
  have cr: "create_repository ev mig g s1 =
      (case creation_failure ev mig g of None \<Rightarrow> Inr () | Some e \<Rightarrow> Inl e,
       s1\<lparr>calls := calls s1 @ [PostUserRepos (index (js_split (targetRepo mig) ''/'') 1) g]\<rparr>)"
    for s1
    by (auto simp add: create_repository_def creation_failure_def Let_def split: option.splits)
  show ?thesis
  proof (cases ?clone)
    case Some
    then show ?thesis using assms by (simp add: steps)
  next
    case clone: None
    show ?thesis
    proof (cases "creation_failure ev mig g")
      case Some
      then show ?thesis using assms clone by (simp add: steps cr)
    next
      case create: None
      show ?thesis
      proof (cases ?seturl)
        case Some
        then show ?thesis using assms clone create by (simp add: steps cr)
      next
        case seturl: None
        show ?thesis
        proof (cases ?push)
          case Some
          then show ?thesis using assms clone create seturl by (simp add: steps cr)
        next
          case None
          then show ?thesis using assms clone create seturl by (simp add: steps cr)
        qed
      qed
    qed
  qed
qed

lemma reached_cases: "reached ev mig = 2 \<or> reached ev mig = 3 \<or> reached ev mig = 4"
  by (simp add: reached_def split: sum.splits)

lemma take_checkpoints:
  "take 2 (checkpoints ev m) =
     [with_status m in_progress (date_now ev in_progress),
      (with_status m in_progress (date_now ev in_progress))\<lparr>progress := 10\<rparr>]"
  "take 3 (checkpoints ev m) =
     [with_status m in_progress (date_now ev in_progress),
      (with_status m in_progress (date_now ev in_progress))\<lparr>progress := 10\<rparr>,
      (with_status m in_progress (date_now ev in_progress))\<lparr>progress := 20\<rparr>]"
  "take 4 (checkpoints ev m) = checkpoints ev m"
  by (simp_all add: checkpoints_def Let_def)

lemma try_block_result:
  assumes "getMigration (storage s) (migration_id mig) = Some m" and "tempDir s = None"
  shows "case try_block ev mig s of
           (Inr _, s') \<Rightarrow>
             stage_failure ev mig = None \<and>
             commits s' = commits s @ success_trace ev m \<and>
             getMigration (storage s') (migration_id mig) = Some (last (success_trace ev m)) \<and>
             storage s' = stored (migration_id mig) (last (success_trace ev m)) (storage s) \<and>
             workspace_kept ev s s'
         | (Inl e, s') \<Rightarrow>
             stage_failure ev mig = Some e \<and>
             commits s' = commits s @ take (reached ev mig) (checkpoints ev m) \<and>
             getMigration (storage s') (migration_id mig) =
               Some (last (take (reached ev mig) (checkpoints ev m))) \<and>
             storage s' =
               stored (migration_id mig) (last (take (reached ev mig) (checkpoints ev m)))
                 (storage s) \<and>
             workspace_kept ev s s'"
proof (cases "decrypt ev (azureToken mig)")
  case Inl
  then show ?thesis
    using assms by (simp add: try_block_def io_defs found reached_def take_checkpoints workspace_kept_def
          made_dir_def scratch_prefix_def stage_failure_def stored_def)
next
  case a: (Inr a)
  show ?thesis
  proof (cases "decrypt ev (githubToken mig)")
    case Inl
    then show ?thesis
      using assms a by (simp add: try_block_def io_defs found reached_def take_checkpoints workspace_kept_def
          made_dir_def scratch_prefix_def stage_failure_def stored_def)
  next
    case g: (Inr g)
    show ?thesis
    proof (cases "call_sanitizeRepoName (index (slice_last2 (js_split (sourceRepo mig) ''/'')) 1)")
      case Inl
      then show ?thesis
        using assms a g by (simp add: try_block_def io_defs found reached_def take_checkpoints workspace_kept_def
          made_dir_def scratch_prefix_def stage_failure_def stored_def)
    next
      case r: (Inr r)
      show ?thesis
      proof (cases "mkdtemp ev (scratch_prefix ev)")
        case Inl
        then show ?thesis
          using assms a g r
          by (simp add: try_block_def io_defs found reached_def take_checkpoints workspace_kept_def
          made_dir_def scratch_prefix_def stage_failure_def stored_def)
      next
        case x: (Inr x)
        define d where "d = scratch_prefix ev @ x"
        have d: "made_dir ev = Inr d" "d \<noteq> []"
          using x by (simp_all add: made_dir_def d_def scratch_prefix_def join_path_def)
        let ?i = "migration_id mig"
        let ?c = "with_status m in_progress (date_now ev in_progress)"
        define s4 where "s4 = snd (and_then (storage_updateMigrationStatus ev ?i in_progress) (\<lambda>_.
          and_then (storage_updateMigrationProgress ?i 10) (\<lambda>_.
          and_then (console_log (''Starting migration for '' @ sourceRepo mig @ '' to '' @ targetRepo mig)) (\<lambda>_.
          and_then (storage_updateMigrationProgress ?i 20) (\<lambda>_.
          and_then (mkdtempSync ev (scratch_prefix ev)) (\<lambda>dir.
          and_then (console_log (''Created temporary directory: '' @ dir)) (\<lambda>_.
          storage_updateMigrationProgress ?i 40)))))) s)"
        have s4: "commits s4 = commits s @ checkpoints ev m"
          "getMigration (storage s4) ?i = Some (?c\<lparr>progress := 40\<rparr>)"
          "tempDir s4 = Some d" "dirs s4 = d # dirs s"
          "storage s4 = stored ?i (?c\<lparr>progress := 40\<rparr>) (storage s)"
          using assms x
          by (simp_all add: s4_def d_def io_defs found checkpoints_def stored_def Let_def)
        have t: "try_block ev mig s = transfer ev mig a g d s4"
          using assms a g r x by (simp add: s4_def d_def try_block_def io_defs found scratch_prefix_def)
        have l: "last (checkpoints ev m) = ?c\<lparr>progress := 40\<rparr>"
          by (simp add: checkpoints_def Let_def)
        have k: "reached ev mig = 4"
          using a g r d by (simp add: reached_def)
        have f: "stage_failure ev mig = transfer_failure ev mig a g d"
          using a g r d by (simp add: stage_failure_def)
        obtain r' s' where ts: "transfer ev mig a g d s4 = (r', s')"
          by force
        show ?thesis
        proof (cases r')
          case (Inl e)
          then have "stage_failure ev mig = Some e \<and>
              commits s' = commits s @ take 4 (checkpoints ev m) \<and>
              getMigration (storage s') ?i = Some (last (take 4 (checkpoints ev m))) \<and>
              storage s' = stored ?i (last (take 4 (checkpoints ev m))) (storage s) \<and>
              workspace_kept ev s s'"
            using transfer_result [OF s4(2), where ev = ev and a = a and g = g and d = d
                and p = "scratch_prefix ev"] s4 l ts d f
            by (simp add: take_checkpoints workspace_kept_def)
          then show ?thesis
            unfolding t ts Inl k by simp
        next
          case (Inr u)
          then have "stage_failure ev mig = None \<and>
              commits s' = commits s @ success_trace ev m \<and>
              getMigration (storage s') ?i = Some (last (success_trace ev m)) \<and>
              storage s' = stored ?i (last (success_trace ev m)) (storage s) \<and>
              workspace_kept ev s s'"
            using transfer_result [OF s4(2), where ev = ev and a = a and g = g and d = d
                and p = "scratch_prefix ev"] s4 l ts d f
            by (simp add: success_trace_def completed_commits_def Let_def workspace_kept_def)
          then show ?thesis
            unfolding t ts Inr by simp
        qed
      qed
    qed
  qed
qed

lemma catch_block_result:
  assumes "getMigration (storage s) (migration_id mig) = Some m"
  shows "\<exists>s'. catch_block ev mig e s = (Inr (), s') \<and>
           commits s' = commits s @ failed_commits ev m e \<and>
           getMigration (storage s') (migration_id mig) = Some (last (failed_commits ev m e)) \<and>
           storage s' = stored (migration_id mig) (last (failed_commits ev m e)) (storage s) \<and>
           tempDir s' = tempDir s \<and> dirs s' = dirs s \<and> calls s' = calls s"
  using assms by (simp add: catch_block_def io_defs found failed_commits_def stored_def Let_def)

lemma finally_block_keeps [simp]:
  "storage (finally_block ev s) = storage s"
  "commits (finally_block ev s) = commits s"
  by (simp_all add: finally_block_def Let_def split: option.splits)

lemma run_result:
  assumes "getMigration (storage s0) (migration_id mig) = Some m"
  shows "fst (migrateRepository ev mig s0) = None"
    and "commits (snd (migrateRepository ev mig s0)) =
           commits s0 @ run_trace ev mig m (fst (try_block ev mig (s0\<lparr>tempDir := None\<rparr>)))"
    and "getMigration (storage (snd (migrateRepository ev mig s0))) (migration_id mig) =
           Some (last (run_trace ev mig m (fst (try_block ev mig (s0\<lparr>tempDir := None\<rparr>)))))"
    and "storage (snd (migrateRepository ev mig s0)) =
           stored (migration_id mig)
             (last (run_trace ev mig m (fst (try_block ev mig (s0\<lparr>tempDir := None\<rparr>)))))
             (storage s0)"
    and "fst (try_block ev mig (s0\<lparr>tempDir := None\<rparr>)) =
           (case stage_failure ev mig of None \<Rightarrow> Inr () | Some e \<Rightarrow> Inl e)"
proof -
  let ?s = "s0\<lparr>tempDir := None\<rparr>"
  let ?i = "migration_id mig"
  have st: "getMigration (storage ?s) ?i = Some m" "tempDir ?s = None"
    using assms by simp_all
  obtain r s1 where t: "try_block ev mig ?s = (r, s1)"
    by force
  have "fst (migrateRepository ev mig s0) = None \<and>
        commits (snd (migrateRepository ev mig s0)) = commits s0 @ run_trace ev mig m r \<and>
        getMigration (storage (snd (migrateRepository ev mig s0))) ?i =
          Some (last (run_trace ev mig m r)) \<and>
        storage (snd (migrateRepository ev mig s0)) =
          stored ?i (last (run_trace ev mig m r)) (storage s0) \<and>
        r = (case stage_failure ev mig of None \<Rightarrow> Inr () | Some e \<Rightarrow> Inl e)"
  proof (cases r)
    case (Inr u)
    then show ?thesis
      using try_block_result [OF st, of ev] t
      by (simp add: migrateRepository_def run_trace_def)
  next
    case (Inl e)
    then have s1: "commits s1 = commits s0 @ take (reached ev mig) (checkpoints ev m)"
      "getMigration (storage s1) ?i = Some (last (take (reached ev mig) (checkpoints ev m)))"
      "storage s1 = stored ?i (last (take (reached ev mig) (checkpoints ev m))) (storage s0)"
      "stage_failure ev mig = Some e"
      using try_block_result [OF st, of ev] t by simp_all
    obtain s2 where c: "catch_block ev mig e s1 = (Inr (), s2)"
      "commits s2 = commits s1 @ failed_commits ev (last (take (reached ev mig) (checkpoints ev m))) e"
      "getMigration (storage s2) ?i =
         Some (last (failed_commits ev (last (take (reached ev mig) (checkpoints ev m))) e))"
      "storage s2 =
         stored ?i (last (failed_commits ev (last (take (reached ev mig) (checkpoints ev m))) e))
           (storage s1)"
      using catch_block_result [OF s1(2), of ev e] by blast
    have "failed_commits ev (last (take (reached ev mig) (checkpoints ev m))) e \<noteq> []"
      by (simp add: failed_commits_def Let_def)
    then show ?thesis
      using t Inl c s1
      by (simp add: migrateRepository_def run_trace_def failure_trace_def)
  qed
  then show "fst (migrateRepository ev mig s0) = None"
    and "commits (snd (migrateRepository ev mig s0)) =
           commits s0 @ run_trace ev mig m (fst (try_block ev mig (s0\<lparr>tempDir := None\<rparr>)))"
    and "getMigration (storage (snd (migrateRepository ev mig s0))) (migration_id mig) =
           Some (last (run_trace ev mig m (fst (try_block ev mig (s0\<lparr>tempDir := None\<rparr>)))))"
    and "storage (snd (migrateRepository ev mig s0)) =
           stored (migration_id mig)
             (last (run_trace ev mig m (fst (try_block ev mig (s0\<lparr>tempDir := None\<rparr>)))))
             (storage s0)"
    and "fst (try_block ev mig (s0\<lparr>tempDir := None\<rparr>)) =
           (case stage_failure ev mig of None \<Rightarrow> Inr () | Some e \<Rightarrow> Inl e)"
    using t by simp_all
qed

lemma with_status_fields [simp]:
  "status (with_status m s now) = s"
  "progress (with_status m s now) = progress m"
  "error (with_status m s now) = error m"
  by (simp_all add: with_status_def Let_def)

lemma failure_trace_unfold:
  "failure_trace ev m 2 e =
     (let c = with_status m in_progress (date_now ev in_progress)
      in [c, c\<lparr>progress := 10\<rparr>] @ failed_commits ev (c\<lparr>progress := 10\<rparr>) e)"
  "failure_trace ev m 3 e =
     (let c = with_status m in_progress (date_now ev in_progress)
      in [c, c\<lparr>progress := 10\<rparr>, c\<lparr>progress := 20\<rparr>] @ failed_commits ev (c\<lparr>progress := 20\<rparr>) e)"
  "failure_trace ev m 4 e =
     (let c = with_status m in_progress (date_now ev in_progress)
      in [c, c\<lparr>progress := 10\<rparr>, c\<lparr>progress := 20\<rparr>, c\<lparr>progress := 40\<rparr>] @
         failed_commits ev (c\<lparr>progress := 40\<rparr>) e)"
  by (simp_all add: failure_trace_def checkpoints_def Let_def)

lemma run_trace_consistent:
  "run_trace ev mig m r \<noteq> [] \<and>
   consistent (last (run_trace ev mig m r)) \<and>
   (\<forall>c \<in> set (butlast (butlast (run_trace ev mig m r))). status c = in_progress)"
proof (cases r)
  case (Inr u)
  then show ?thesis
    by (simp add: run_trace_def success_trace_def checkpoints_def completed_commits_def
        consistent_def Let_def)
next
  case (Inl e)
  then show ?thesis
    using reached_cases [of ev mig]
    by (auto simp: run_trace_def failure_trace_unfold failed_commits_def consistent_def Let_def)
qed

lemma run_trace_progress:
  assumes "progress m = 0"
  shows "sorted (map progress (run_trace ev mig m r)) \<and>
         (\<forall>c \<in> set (run_trace ev mig m r). 0 \<le> progress c \<and> progress c \<le> 100)"
proof (cases r)
  case (Inr u)
  then show ?thesis
    using assms
    by (simp add: run_trace_def success_trace_def checkpoints_def completed_commits_def Let_def)
next
  case (Inl e)
  then show ?thesis
    using reached_cases [of ev mig] assms
    by (auto simp: run_trace_def failure_trace_unfold failed_commits_def Let_def)
qed



lemma io_rm [simp]:
  "storage_updateMigrationStatus (ev\<lparr>rm := r\<rparr>) = storage_updateMigrationStatus ev"
  "execSync (ev\<lparr>rm := r\<rparr>) = execSync ev"
  "mkdtempSync (ev\<lparr>rm := r\<rparr>) = mkdtempSync ev"
  "create_repository (ev\<lparr>rm := r\<rparr>) = create_repository ev"
  by (auto simp: fun_eq_iff storage_updateMigrationStatus_def execSync_def mkdtempSync_def
      create_repository_def)

lemma blocks_rm [simp]:
  "try_block (ev\<lparr>rm := r\<rparr>) = try_block ev"
  "catch_block (ev\<lparr>rm := r\<rparr>) = catch_block ev"
  by (simp_all add: fun_eq_iff try_block_def transfer_def catch_block_def)


lemma fresh_tempDir [simp]: "(fresh_state st)\<lparr>tempDir := None\<rparr> = fresh_state st"
  by (simp add: fresh_state_def)

lemma example_stored:
  "getMigration example_store (migration_id example_record) = Some example_record"
  using createMigration_fields(6,8) [of MemStorage_new example_request]
  by (simp add: example_store_def example_record_def)

lemma run_trace_tail:
  "case r of
     Inr _ \<Rightarrow>
       status (last (butlast (run_trace ev mig m r))) = completed \<and>
       last (run_trace ev mig m r) = (last (butlast (run_trace ev mig m r)))\<lparr>progress := 100\<rparr>
   | Inl e \<Rightarrow>
       status (last (butlast (run_trace ev mig m r))) = failed \<and>
       last (run_trace ev mig m r) =
         (last (butlast (run_trace ev mig m r)))\<lparr>error := Some (errorMessage e)\<rparr>"
proof (cases r)
  case (Inr u)
  then show ?thesis
    by (simp add: run_trace_def success_trace_def checkpoints_def completed_commits_def Let_def)
next
  case (Inl e)
  then show ?thesis
    using reached_cases [of ev mig]
    by (auto simp: run_trace_def failure_trace_unfold failed_commits_def Let_def)
qed

text \<open>
  C2 (as the code has it). In a run on a stored record, with no other writer, the engine
  commits at least once; the last committed version is the one the store holds when the
  run is over, and it is neither failed without an error text nor completed with a
  progress other than 100; every version before the last two has status in_progress.
  The version before the last is the one written by the terminal status update alone.
\<close>

theorem run_commits_consistent:
  assumes "getMigration st (migration_id mig) = Some m"
  shows "commits (snd (migrateRepository ev mig (fresh_state st))) \<noteq> [] \<and>
         getMigration (storage (snd (migrateRepository ev mig (fresh_state st)))) (migration_id mig) =
           Some (last (commits (snd (migrateRepository ev mig (fresh_state st))))) \<and>
         consistent (last (commits (snd (migrateRepository ev mig (fresh_state st))))) \<and>
         (\<forall>c \<in> set (butlast (butlast (commits (snd (migrateRepository ev mig (fresh_state st)))))).
            status c = in_progress \<and> consistent c)"
proof -
  have st: "getMigration (storage (fresh_state st)) (migration_id mig) = Some m"
    using assms by (simp add: fresh_state_def)
  have c: "commits (fresh_state st) = []"
    by (simp add: fresh_state_def)
  show ?thesis
    using run_result(2,3) [OF st, of ev] run_trace_consistent [of ev mig m] c
    by (simp add: consistent_def)
qed

theorem run_commits_consistent_witness:
  "getMigration example_store (migration_id example_record) = Some example_record \<and>
   consistent (last (commits (example_run ''hunter2'' Exit0 None))) \<and>
   status (last (commits (example_run ''hunter2'' Exit0 None))) = completed"
proof -
  have "status (last (commits (example_run ''hunter2'' Exit0 None))) = completed"
    by code_simp
  then show ?thesis
    using example_stored
      run_commits_consistent [OF example_stored, of "example_env ''hunter2'' Exit0 None"]
    by (simp add: example_run_def)
qed

text \<open>
  C2 as stated fails: the sixth version committed by a successful run is completed with
  progress 90, and the fifth version committed by a run whose clone fails is failed with
  no error text.
\<close>

theorem committed_states_counterexample:
  "status (commits (example_run ''hunter2'' Exit0 None) ! 5) = completed \<and>
   progress (commits (example_run ''hunter2'' Exit0 None) ! 5) = 90 \<and>
   status (commits (example_run ''hunter2'' (ExitNonZero []) None) ! 4) = failed \<and>
   error (commits (example_run ''hunter2'' (ExitNonZero []) None) ! 4) = None"
  by code_simp











text \<open>
  C8 (as the code has it). In a run on a stored record of progress 0, with no other
  writer, the committed progress values never decrease and lie between 0 and 100; every
  version before the last two is in_progress; the terminal status is committed second to
  last, and the last commit changes only the progress to 100 after completed, or only the
  error text after failed.
\<close>

theorem run_progress_monotone:
  assumes "getMigration st (migration_id mig) = Some m" and "progress m = 0"
  shows "sorted (map progress (commits (snd (migrateRepository ev mig (fresh_state st))))) \<and>
         (\<forall>c \<in> set (commits (snd (migrateRepository ev mig (fresh_state st)))).
            0 \<le> progress c \<and> progress c \<le> 100) \<and>
         (\<forall>c \<in> set (butlast (butlast (commits (snd (migrateRepository ev mig (fresh_state st)))))).
            status c = in_progress) \<and>
         (case fst (try_block ev mig (fresh_state st)) of
            Inr _ \<Rightarrow>
              status (last (butlast (commits (snd (migrateRepository ev mig (fresh_state st)))))) = completed \<and>
              last (commits (snd (migrateRepository ev mig (fresh_state st)))) =
                (last (butlast (commits (snd (migrateRepository ev mig (fresh_state st))))))\<lparr>progress := 100\<rparr>
          | Inl e \<Rightarrow>
              status (last (butlast (commits (snd (migrateRepository ev mig (fresh_state st)))))) = failed \<and>
              last (commits (snd (migrateRepository ev mig (fresh_state st)))) =
                (last (butlast (commits (snd (migrateRepository ev mig (fresh_state st))))))
                  \<lparr>error := Some (errorMessage e)\<rparr>)"
proof -
  have st: "getMigration (storage (fresh_state st)) (migration_id mig) = Some m"
    using assms by (simp add: fresh_state_def)
  have c: "commits (fresh_state st) = []"
    by (simp add: fresh_state_def)
  have eq: "commits (snd (migrateRepository ev mig (fresh_state st))) =
      run_trace ev mig m (fst (try_block ev mig (fresh_state st)))"
    using run_result(2) [OF st, of ev] c by simp
  show ?thesis
    unfolding eq
    using run_trace_progress [OF assms(2), of ev mig] run_trace_consistent [of ev mig m]
      run_trace_tail [where r = "fst (try_block ev mig (fresh_state st))" and ev = ev and mig = mig and m = m]
    by simp
qed

theorem run_progress_monotone_witness:
  "getMigration example_store (migration_id example_record) = Some example_record \<and>
   progress example_record = 0 \<and>
   sorted (map progress (commits (example_run ''hunter2'' Exit0 None))) \<and>
   map progress (commits (example_run ''hunter2'' Exit0 None)) = [0, 10, 20, 40, 90, 90, 100]"
proof -
  have p: "progress example_record = 0"
    by (simp add: example_record_def createMigration_fields)
  have "map progress (commits (example_run ''hunter2'' Exit0 None)) = [0, 10, 20, 40, 90, 90, 100]"
    by code_simp
  then show ?thesis
    using example_stored p
      run_progress_monotone [OF example_stored p, of "example_env ''hunter2'' Exit0 None"]
    by (simp add: example_run_def)
qed

text \<open>
  C8 as stated fails: the progress setter stores 150 on an in_progress record and then
  lowers it to 20; and a successful run commits completed with progress 90 and changes
  the progress to 100 afterwards.
\<close>

theorem progress_setter_counterexample:
  "map_option progress
     (getMigration (mutate_all example_store [SetStatus 1 in_progress 1, SetProgress 1 150]) 1) = Some 150 \<and>
   map_option status
     (getMigration (mutate_all example_store [SetStatus 1 in_progress 1, SetProgress 1 150]) 1) =
     Some in_progress \<and>
   map_option progress
     (getMigration (mutate_all example_store
        [SetStatus 1 in_progress 1, SetProgress 1 150, SetProgress 1 20]) 1) = Some 20 \<and>
   status (commits (example_run ''hunter2'' Exit0 None) ! 5) = completed \<and>
   progress (commits (example_run ''hunter2'' Exit0 None) ! 5) = 90 \<and>
   progress (commits (example_run ''hunter2'' Exit0 None) ! 6) = 100"
  by code_simp





text \<open>
  C6 fails on the code. The inner catch drops every creation error whose response has
  status 422, whatever its message. When the target host answers the creation request
  with 422 and the message \<^verbatim>\<open>Validation Failed\<close>, which is not the answer for a
  repository that exists, the run goes on as it does for an existing repository: the
  remote is re-pointed, the push is run, and the record ends completed with no error.
  An answer with status 403 ends the run before the remote is re-pointed and leaves the
  record failed with the message of the answer.
\<close>

theorem creation_error_422_dropped:
  "map_option http_status (response validation_failed) = Some 422 \<and>
   errorMessage validation_failed = ''Validation Failed'' \<and>
   fst (try_block (example_env ''hunter2'' Exit0 (Some validation_failed)) example_record
          (fresh_state example_store)) = Inr () \<and>
   calls (example_run ''hunter2'' Exit0 (Some validation_failed)) ! 2 =
     PostUserRepos (Some ''My Repo'') ''gh-token'' \<and>
   calls (example_run ''hunter2'' Exit0 (Some validation_failed)) ! 4 =
     Exec ''git push --mirror'' ''/tmp/repo-migration-Ab12Cd'' \<and>
   map_option status
     (getMigration (storage (example_run ''hunter2'' Exit0 (Some validation_failed))) 1) =
     Some completed \<and>
   map_option error
     (getMigration (storage (example_run ''hunter2'' Exit0 (Some validation_failed))) 1) =
     Some None \<and>
   map_option status
     (getMigration (storage (example_run ''hunter2'' Exit0 (Some conflict))) 1) =
     Some completed \<and>
   map_option status
     (getMigration (storage (example_run ''hunter2'' Exit0 (Some forbidden))) 1) = Some failed \<and>
   map_option error
     (getMigration (storage (example_run ''hunter2'' Exit0 (Some forbidden))) 1) =
     Some (Some ''Resource not accessible by personal access token'') \<and>
   length (calls (example_run ''hunter2'' Exit0 (Some forbidden))) = 4"
  by code_simp

text \<open>
  C1 fails on the code. When the clone exits with a non-zero status, the text stored in
  the record's error field, and returned by the list of all records, is the message of
  the error thrown by \<^verbatim>\<open>execSync\<close>: the command line, which contains the decrypted source
  token. Two runs that differ only in that token store different error texts.
\<close>

theorem clone_failure_stores_token:
  "map_option error
     (getMigration (storage (example_run ''hunter2'' (ExitNonZero []) None)) 1) =
     Some (Some (''Command failed: git clone --mirror '' @ [dquote] @ ''https://:'' @ ''hunter2'' @
                 ''@dev.azure.com/org/proj/_git/My Repo'' @ [dquote] @ '' .'')) \<and>
   map error (getAllMigrations (storage (example_run ''hunter2'' (ExitNonZero []) None))) =
     [Some (''Command failed: git clone --mirror '' @ [dquote] @ ''https://:'' @ ''hunter2'' @
            ''@dev.azure.com/org/proj/_git/My Repo'' @ [dquote] @ '' .'')] \<and>
   map_option error
     (getMigration (storage (example_run ''swordfish'' (ExitNonZero []) None)) 1) \<noteq>
   map_option error
     (getMigration (storage (example_run ''hunter2'' (ExitNonZero []) None)) 1)"
  by code_simp

text \<open>
  C5 fails on the code. For the source repository \<^verbatim>\<open>My Repo\<close> the normalized name is
  \<^verbatim>\<open>my-repo\<close>, but the creation request is sent with the name \<^verbatim>\<open>My Repo\<close>, the second
  part of the target locator, and the remote is set to \<^verbatim>\<open>octo/My Repo.git\<close>: the result of
  \<^const>\<open>sanitizeRepoName\<close> is computed in the try block and used nowhere.
\<close>

theorem target_name_not_normalized:
  "index (slice_last2 (js_split (sourceRepo example_record) ''/'')) 1 = Some ''My Repo'' \<and>
   sanitizeRepoName ''My Repo'' = ''my-repo'' \<and>
   calls (example_run ''hunter2'' Exit0 None) ! 2 = PostUserRepos (Some ''My Repo'') ''gh-token'' \<and>
   calls (example_run ''hunter2'' Exit0 None) ! 3 =
     Exec (set_url_command ''https://gh-token@github.com/octo/My Repo.git'')
       ''/tmp/repo-migration-Ab12Cd''"
  by code_simp

end
